theory Spec2Isabelle
  imports Main
begin

section \<open>The symbol set (set.h)\<close>

text \<open>
  Modelled from the spec: the Symbol Set of \<^verbatim>\<open>set.h\<close> (\<^verbatim>\<open>set\<close>, \<^verbatim>\<open>set_insert\<close>,
  \<^verbatim>\<open>set_contains\<close>, \<^verbatim>\<open>set_union\<close>, \<^verbatim>\<open>set_iter\<close>/\<^verbatim>\<open>set_iter_next\<close>), whose
  implementation is not part of the sources. A set is the list of its members in the
  order the iterator yields them; insertion is idempotent, so every member is yielded
  once.
\<close>

type_synonym set_t = "string list"

definition set_contains :: "set_t \<Rightarrow> string \<Rightarrow> bool" where
  "set_contains s name = (name \<in> set s)"

definition set_insert :: "set_t \<Rightarrow> string \<Rightarrow> set_t" where
  "set_insert s name = (if set_contains s name then s else s @ [name])"

definition set_union :: "set_t \<Rightarrow> set_t \<Rightarrow> set_t" where
  "set_union a b = fold (\<lambda>name acc. set_insert acc name) b a"

section \<open>Cursors of the translation unit (libclang)\<close>

text \<open>
  The kinds of cursor that \<^verbatim>\<open>main.c\<close> tells apart, and some of the kinds it does
  not (they all take the \<^verbatim>\<open>default\<close> branch of the switch in \<^verbatim>\<open>emit\<close>).
\<close>

datatype CXCursorKind =
    CXCursor_UnexposedDecl
  | CXCursor_StructDecl
  | CXCursor_UnionDecl
  | CXCursor_EnumDecl
  | CXCursor_FieldDecl
  | CXCursor_EnumConstantDecl
  | CXCursor_FunctionDecl
  | CXCursor_VarDecl
  | CXCursor_ParmDecl
  | CXCursor_TypedefDecl
  | CXCursor_MacroDefinition
  | CXCursor_InclusionDirective

text \<open>
  What \<^verbatim>\<open>main.c\<close> reads of a cursor through libclang: \<^verbatim>\<open>clang_getCursorKind\<close>,
  \<^verbatim>\<open>clang_getCursorSpelling\<close>, \<^verbatim>\<open>clang_isCursorDefinition\<close> and the spellings of the
  tokens that \<^verbatim>\<open>clang_tokenize\<close> returns for \<^verbatim>\<open>clang_getCursorExtent\<close>.
\<close>

record CXCursor =
  kind :: CXCursorKind
  spelling :: string
  is_definition :: bool
  extent_tokens :: "string list"

datatype CXChildVisitResult =
    CXChildVisit_Break
  | CXChildVisit_Continue
  | CXChildVisit_Recurse

section \<open>emit\<close>

text \<open>
  A \<^verbatim>\<open>FILE*\<close> opened for writing is the text written to it so far; \<^verbatim>\<open>fprintf\<close>
  appends.
\<close>

type_synonym stream = string

text \<open>
  The spelling of \<^verbatim>\<open>tokens[i]\<close>. The array holds the tokens of the extent and nothing
  else: a read at an index that is not below their number is a read out of bounds, which
  the model keeps apart as \<open>None\<close>.
\<close>

definition token_spelling :: "string list \<Rightarrow> nat \<Rightarrow> string option" where
  "token_spelling tokens i = (if i < length tokens then Some (tokens ! i) else None)"

text \<open>
  \<open>n - 1\<close> on an \<^verbatim>\<open>unsigned int\<close>: zero wraps around to \<open>2 ^ 32 - 1\<close>.
\<close>

definition uint_dec :: "nat \<Rightarrow> nat" where
  "uint_dec n = (if n = 0 then 2 ^ 32 - 1 else n - 1)"

text \<open>
  The loop of \<^verbatim>\<open>emit\<close> that dumps the tokens, over the indices that \<open>i\<close> takes.
\<close>

fun dump_tokens ::
    "CXCursorKind \<Rightarrow> string list \<Rightarrow> nat \<Rightarrow> nat list \<Rightarrow> stream \<Rightarrow> stream option" where
  "dump_tokens k tokens tokens_sz [] out = Some out"
| "dump_tokens k tokens tokens_sz (i # rest) out =
     (case token_spelling tokens i of
        None \<Rightarrow> None
      | Some token \<Rightarrow>
          dump_tokens k tokens tokens_sz rest
            (if i = uint_dec tokens_sz \<and> k = CXCursor_TypedefDecl
                \<and> token = ''__attribute__''
             then out @ ''; ''
             else out @ token @ [CHR 0x0A]))"

text \<open>
  \<^verbatim>\<open>emit\<close>: the stream after the call, or \<open>None\<close> when a token is read out of
  bounds.
\<close>

definition emit :: "stream \<Rightarrow> CXCursor \<Rightarrow> stream option" where
  "emit out cursor =
     (let tokens = extent_tokens cursor;
          tokens_sz = length tokens
      in if tokens_sz = 0 then Some out
         else
           case token_spelling tokens (uint_dec tokens_sz) of
             None \<Rightarrow> None
           | Some last_tok \<Rightarrow>
               let k = kind cursor
               in if k = CXCursor_FunctionDecl then
                    (let tokens_sz' =
                           (if is_definition cursor \<and> last_tok \<noteq> ''}''
                            then uint_dec tokens_sz else tokens_sz)
                     in dump_tokens k tokens tokens_sz' [0..<tokens_sz'] out)
                  else if k = CXCursor_StructDecl \<or> k = CXCursor_UnionDecl
                          \<or> k = CXCursor_EnumDecl then
                    (if last_tok \<noteq> '';'' \<and> last_tok \<noteq> ''}'' then Some out
                     else dump_tokens k tokens tokens_sz [0..<tokens_sz] out)
                  else dump_tokens k tokens tokens_sz [0..<tokens_sz] out)"

section \<open>The visitor of the top-level declarations\<close>

record state_t =
  keep :: set_t
  blacklist :: set_t
  out :: stream

definition is_blacklisted :: "set_t \<Rightarrow> CXCursor \<Rightarrow> bool" where
  "is_blacklisted bl cursor = set_contains bl (spelling cursor)"

text \<open>
  The visitor answers with the state it leaves, or \<open>None\<close> when \<^verbatim>\<open>emit\<close> reads a
  token out of bounds.
\<close>

definition visitor :: "CXCursor \<Rightarrow> state_t \<Rightarrow> (CXChildVisitResult \<times> state_t) option" where
  "visitor cursor st =
     (if kind cursor = CXCursor_FunctionDecl \<and> \<not> set_contains (keep st) (spelling cursor)
      then Some (CXChildVisit_Continue, st)
      else if is_blacklisted (blacklist st) cursor
      then Some (CXChildVisit_Continue, st)
      else case emit (out st) cursor of
             None \<Rightarrow> None
           | Some out' \<Rightarrow> Some (CXChildVisit_Continue, st\<lparr>out := out'\<rparr>))"


section \<open>What the specification says of the selector and the emitter\<close>

text \<open>One token spelling per line.\<close>

definition token_lines :: "string list \<Rightarrow> string" where
  "token_lines toks = concat (map (\<lambda>t. t @ [CHR 0x0A]) toks)"

text \<open>
  The three checks of the Declaration Selector, in the specification's words: a function
  whose name is not in the closed keep-set is skipped; else a declaration whose name is in
  the blacklist is skipped; else the declaration is emitted.
\<close>

datatype decision = Skip | Emit

definition selector :: "set_t \<Rightarrow> set_t \<Rightarrow> CXCursor \<Rightarrow> decision" where
  "selector closed_keep bl d =
     (if kind d = CXCursor_FunctionDecl \<and> spelling d \<notin> set closed_keep then Skip
      else if spelling d \<in> set bl then Skip
      else Emit)"

text \<open>
  The token range left by the two range corrections of the specification: a function
  definition whose last token is not the closing brace loses that token, a struct, union
  or enum declaration whose last token is neither a semicolon nor a closing brace is
  skipped, every other extent is kept whole.
\<close>

definition emitted_range :: "CXCursor \<Rightarrow> string list" where
  "emitted_range c =
     (let toks = extent_tokens c in
      if toks = [] then []
      else if kind c = CXCursor_FunctionDecl \<and> is_definition c \<and> last toks \<noteq> ''}''
      then butlast toks
      else if (kind c = CXCursor_StructDecl \<or> kind c = CXCursor_UnionDecl
               \<or> kind c = CXCursor_EnumDecl)
              \<and> last toks \<noteq> '';'' \<and> last toks \<noteq> ''}''
      then []
      else toks)"

section \<open>The call graph (cfg.h)\<close>










section \<open>merge_callees\<close>

text \<open>
  Modelled from the spec: \<^verbatim>\<open>set()\<close> of \<^verbatim>\<open>set.h\<close>, a new empty set, or no set
  (\<^verbatim>\<open>NULL\<close>) when the allocation fails.
\<close>

definition set_new :: "bool \<Rightarrow> set_t option" where
  "set_new mem = (if mem then Some [] else None)"





section \<open>The command line (getopt.h, parse_args)\<close>

text \<open>
  \<^verbatim>\<open>getopt_long\<close> of the C library, as its manual describes it for an option string
  without a leading mode character: the elements of \<^verbatim>\<open>argv\<close> that are not options are
  skipped and end up after the options, \<^verbatim>\<open>--\<close> ends the options, an element that
  starts with \<^verbatim>\<open>--\<close> is a long option (matched exactly or by an unambiguous prefix,
  with its argument after \<^verbatim>\<open>=\<close> or in the next element), any other element that
  starts with \<^verbatim>\<open>-\<close> is a cluster of short options. A short option is recognised
  when its character occurs in the option string; a character that does not, an unknown
  or ambiguous long option and a missing argument all return \<^verbatim>\<open>?\<close>. The diagnostics
  that the library writes to the standard error stream are left out.
\<close>

datatype has_arg = no_argument | required_argument | optional_argument

record long_option =
  lo_name :: string
  lo_has_arg :: has_arg
  lo_val :: char

text \<open>
  The state of the scan: the rest of the cluster of short options being read, the
  elements of \<^verbatim>\<open>argv\<close> not scanned yet, and the non-options skipped so far. When the
  scan ends, the skipped elements are \<^verbatim>\<open>argv[optind]\<close> to \<^verbatim>\<open>argv[argc - 1]\<close>.
\<close>

record getopt_state =
  nextchar :: string
  pending :: "string list"
  nonopts :: "string list"

datatype getopt_ret = EndOfOptions | Returned char

definition nonoption :: "string \<Rightarrow> bool" where
  "nonoption a = (case a of [] \<Rightarrow> True | c # cs \<Rightarrow> c \<noteq> CHR ''-'' \<or> cs = [])"

fun lookup_short :: "string \<Rightarrow> char \<Rightarrow> has_arg option" where
  "lookup_short [] c = None"
| "lookup_short (x # xs) c =
     (if x = c then
        Some (if take 2 xs = ''::'' then optional_argument
              else if take 1 xs = '':'' then required_argument
              else no_argument)
      else lookup_short xs c)"

definition missing_argument :: "string \<Rightarrow> char" where
  "missing_argument optstring = (if take 1 optstring = '':'' then CHR '':'' else CHR ''?'')"

definition short_option ::
    "string \<Rightarrow> getopt_state \<Rightarrow> getopt_ret \<times> string option \<times> getopt_state" where
  "short_option optstring s =
     (case nextchar s of
        [] \<Rightarrow> (EndOfOptions, None, s)
      | c # rest \<Rightarrow>
          (case (if c = CHR '':'' \<or> c = CHR '';'' then None else lookup_short optstring c) of
             None \<Rightarrow> (Returned CHR ''?'', None, s\<lparr>nextchar := rest\<rparr>)
           | Some no_argument \<Rightarrow> (Returned c, None, s\<lparr>nextchar := rest\<rparr>)
           | Some optional_argument \<Rightarrow>
               (Returned c, if rest = [] then None else Some rest, s\<lparr>nextchar := []\<rparr>)
           | Some required_argument \<Rightarrow>
               (if rest \<noteq> [] then (Returned c, Some rest, s\<lparr>nextchar := []\<rparr>)
                else case pending s of
                  [] \<Rightarrow> (Returned (missing_argument optstring), None, s\<lparr>nextchar := []\<rparr>)
                | a # as \<Rightarrow> (Returned c, Some a, s\<lparr>nextchar := [], pending := as\<rparr>))))"

definition find_long :: "long_option list \<Rightarrow> string \<Rightarrow> long_option option" where
  "find_long longopts nm =
     (case filter (\<lambda>p. lo_name p = nm) longopts of
        p # _ \<Rightarrow> Some p
      | [] \<Rightarrow>
          (case filter (\<lambda>p. take (length nm) (lo_name p) = nm) longopts of
             [] \<Rightarrow> None
           | p # ps \<Rightarrow>
               if \<exists>q \<in> set ps. lo_has_arg q \<noteq> lo_has_arg p \<or> lo_val q \<noteq> lo_val p
               then None else Some p))"

definition long_option ::
    "string \<Rightarrow> long_option list \<Rightarrow> string \<Rightarrow> getopt_state
       \<Rightarrow> getopt_ret \<times> string option \<times> getopt_state" where
  "long_option optstring longopts arg s =
     (let nm = takeWhile (\<lambda>c. c \<noteq> CHR ''='') arg;
          rest = dropWhile (\<lambda>c. c \<noteq> CHR ''='') arg
      in case find_long longopts nm of
           None \<Rightarrow> (Returned CHR ''?'', None, s)
         | Some p \<Rightarrow>
             if rest \<noteq> [] then
               (if lo_has_arg p = no_argument then (Returned CHR ''?'', None, s)
                else (Returned (lo_val p), Some (tl rest), s))
             else if lo_has_arg p = required_argument then
               (case pending s of
                  [] \<Rightarrow> (Returned (missing_argument optstring), None, s)
                | a # as \<Rightarrow> (Returned (lo_val p), Some a, s\<lparr>pending := as\<rparr>))
             else (Returned (lo_val p), None, s))"

definition getopt_long ::
    "string \<Rightarrow> long_option list \<Rightarrow> getopt_state
       \<Rightarrow> getopt_ret \<times> string option \<times> getopt_state" where
  "getopt_long optstring longopts s =
     (if nextchar s \<noteq> [] then short_option optstring s
      else
        let s1 = s\<lparr>nonopts := nonopts s @ takeWhile nonoption (pending s)\<rparr> in
        case dropWhile nonoption (pending s) of
          [] \<Rightarrow> (EndOfOptions, None, s1\<lparr>pending := []\<rparr>)
        | a # as \<Rightarrow>
            if a = ''--'' then
              (EndOfOptions, None, s1\<lparr>pending := [], nonopts := nonopts s1 @ as\<rparr>)
            else if take 2 a = ''--'' then
              long_option optstring longopts (drop 2 a) (s1\<lparr>pending := as\<rparr>)
            else short_option optstring (s1\<lparr>nextchar := tl a, pending := as\<rparr>))"

text \<open>The table \<^verbatim>\<open>opts\<close> of \<^verbatim>\<open>parse_args\<close>.\<close>

definition parse_args_opts :: "long_option list" where
  "parse_args_opts =
     [\<lparr>lo_name = ''blacklist'', lo_has_arg = required_argument, lo_val = CHR ''b''\<rparr>,
      \<lparr>lo_name = ''help'', lo_has_arg = no_argument, lo_val = CHR ''?''\<rparr>,
      \<lparr>lo_name = ''keep'', lo_has_arg = required_argument, lo_val = CHR ''k''\<rparr>,
      \<lparr>lo_name = ''output'', lo_has_arg = required_argument, lo_val = CHR ''o''\<rparr>]"

record options_t =
  o_input :: "string option"
  o_output :: "string option"
  o_keep :: set_t
  o_blacklist :: set_t

text \<open>
  The loop of \<^verbatim>\<open>parse_args\<close> around \<^verbatim>\<open>getopt_long\<close>, with the option string
  \<^verbatim>\<open>"k:o:?"\<close> of the source. \<open>Usage\<close> is the case \<^verbatim>\<open>'?'\<close>, which prints the usage
  and fails; \<open>Unknown\<close> is the default case; \<open>NullArgument\<close> is \<^verbatim>\<open>set_insert\<close> on
  an \<^verbatim>\<open>optarg\<close> that is \<^verbatim>\<open>NULL\<close>.
\<close>

datatype parse_failure = Usage | Unknown | NullArgument

function parse_loop :: "getopt_state \<Rightarrow> options_t \<Rightarrow> parse_failure + getopt_state \<times> options_t" where
  "parse_loop s o' =
     (case getopt_long ''k:o:?'' parse_args_opts s of
        (EndOfOptions, optarg, s') \<Rightarrow> Inr (s', o')
      | (Returned c, optarg, s') \<Rightarrow>
          if c = CHR ''b'' then
            (case optarg of
               None \<Rightarrow> Inl NullArgument
             | Some a \<Rightarrow> parse_loop s' (o'\<lparr>o_blacklist := set_insert (o_blacklist o') a\<rparr>))
          else if c = CHR ''k'' then
            (case optarg of
               None \<Rightarrow> Inl NullArgument
             | Some a \<Rightarrow> parse_loop s' (o'\<lparr>o_keep := set_insert (o_keep o') a\<rparr>))
          else if c = CHR ''o'' then
            parse_loop s' (o'\<lparr>o_output := optarg\<rparr>)
          else if c = CHR ''?'' then Inl Usage
          else Inl Unknown)"
  by pat_completeness auto
termination
proof (relation "measures [\<lambda>(s, _). length (pending s), \<lambda>(s, _). length (nextchar s)]")
  show "wf (measures [\<lambda>(s, _). length (pending s), \<lambda>(s, _). length (nextchar s)])"
    by simp
next
  have short: "length (pending s') < length (pending s)
               \<or> length (pending s') = length (pending s)
                 \<and> length (nextchar s') < length (nextchar s)"
    if "short_option os s = (Returned c, oa, s')" "nextchar s \<noteq> []" for os s c oa s'
    using that unfolding short_option_def
    by (auto split: list.splits option.splits has_arg.splits if_splits)
  have long: "length (pending s') \<le> length (pending s)"
    if "long_option os lo a s = (r, oa, s')" for os lo a s r oa s'
    using that unfolding long_option_def Let_def
    by (auto split: list.splits option.splits if_splits)
  have drop: "length as < length (pending s)"
    if "dropWhile nonoption (pending s) = a # as" for s :: getopt_state and a as
  proof -
    have "length (a # as) \<le> length (pending s)"
      unfolding that [symmetric] by (rule length_dropWhile_le)
    then show ?thesis by simp
  qed
  have step: "length (pending s') < length (pending s)
               \<or> length (pending s') = length (pending s)
                 \<and> length (nextchar s') < length (nextchar s)"
    if g: "getopt_long os lo s = (Returned c, oa, s')" for os lo s c oa s'
  proof (cases "nextchar s = []")
    case False
    with g short [of os s c oa s'] show ?thesis by (simp add: getopt_long_def)
  next
    case True
    show ?thesis
    proof (cases "dropWhile nonoption (pending s)")
      case Nil
      with g True show ?thesis by (simp add: getopt_long_def)
    next
      case (Cons a as)
      note d = drop [OF Cons]
      let ?s1 = "s\<lparr>nonopts := nonopts s @ takeWhile nonoption (pending s)\<rparr>"
      show ?thesis
      proof (cases "take 2 a = ''--''")
        case True
        with g \<open>nextchar s = []\<close> Cons
        have "a \<noteq> ''--'' \<and> long_option os lo (drop 2 a) (?s1\<lparr>pending := as\<rparr>)
                = (Returned c, oa, s')"
          by (auto simp: getopt_long_def Let_def split: if_splits)
        with long [of os lo "drop 2 a" "?s1\<lparr>pending := as\<rparr>" "Returned c" oa s'] d
        show ?thesis by simp
      next
        case False
        with g \<open>nextchar s = []\<close> Cons
        have so: "short_option os (?s1\<lparr>nextchar := tl a, pending := as\<rparr>)
                = (Returned c, oa, s')"
          by (auto simp: getopt_long_def Let_def split: if_splits)
        have "length (pending s') \<le> length as"
          using so unfolding short_option_def
          by (auto split: list.splits option.splits has_arg.splits if_splits)
        with d show ?thesis by simp
      qed
    qed
  qed
  fix s o' x c oa s' y a
  assume "(x, y) = getopt_long ''k:o:?'' parse_args_opts s" "x = Returned c" "(oa, s') = y"
  then have g: "getopt_long ''k:o:?'' parse_args_opts s = (Returned c, oa, s')" by simp
  note r = step [OF g]
  show "((s', o'\<lparr>o_blacklist := set_insert (o_blacklist o') a\<rparr>), s, o')
          \<in> measures [\<lambda>(s, _). length (pending s), \<lambda>(s, _). length (nextchar s)]"
    using r by auto
  show "((s', o'\<lparr>o_keep := set_insert (o_keep o') a\<rparr>), s, o')
          \<in> measures [\<lambda>(s, _). length (pending s), \<lambda>(s, _). length (nextchar s)]"
    using r by auto
  show "((s', o'\<lparr>o_output := oa\<rparr>), s, o')
          \<in> measures [\<lambda>(s, _). length (pending s), \<lambda>(s, _). length (nextchar s)]"
    using r by auto
qed


declare parse_loop.simps [simp del]

text \<open>
  \<^verbatim>\<open>parse_args\<close> returns the options or ends the process with \<^verbatim>\<open>exit\<close>. The first
  argument is the number of allocations that succeed (\<^verbatim>\<open>calloc\<close>, then the two calls of
  \<^verbatim>\<open>set()\<close>); the result carries what is written to the standard output and to the
  standard error stream.
\<close>

datatype 'a outcome = Exit int | Crash | Return 'a

definition EXIT_FAILURE :: int where
  "EXIT_FAILURE = 1"

definition usage :: "string \<Rightarrow> string" where
  "usage argv0 =
     ''Usage: '' @ argv0 @ '' options... input_file'' @ [CHR 0x0A]
     @ ''Trims a C file by discarding unwanted functions.'' @ [CHR 0x0A]
     @ [CHR 0x0A]
     @ '' Options:'' @ [CHR 0x0A]
     @ ''  --keep symbol | -k symbol   Retain a particular function.'' @ [CHR 0x0A]
     @ ''  --output file | -o file     Write output to file, rather than stdout.''
     @ [CHR 0x0A]"

definition parse_args :: "nat \<Rightarrow> string list \<Rightarrow> options_t outcome \<times> stream \<times> stream" where
  "parse_args heap argv =
     (if heap < 1 then (Exit EXIT_FAILURE, [], [])
      else case set_new (2 \<le> heap) of
        None \<Rightarrow> (Exit EXIT_FAILURE, [], [])
      | Some keep0 \<Rightarrow>
          (case set_new (3 \<le> heap) of
             None \<Rightarrow> (Exit EXIT_FAILURE, [], [])
           | Some blacklist0 \<Rightarrow>
               (case parse_loop \<lparr>nextchar = [], pending = tl argv, nonopts = []\<rparr>
                       \<lparr>o_input = None, o_output = Some ''/dev/stdout'',
                        o_keep = keep0, o_blacklist = blacklist0\<rparr> of
                  Inl Usage \<Rightarrow>
                    (Exit EXIT_FAILURE,
                     usage (case argv of [] \<Rightarrow> ''(null)'' | a # _ \<Rightarrow> a), [])
                | Inl Unknown \<Rightarrow> (Exit EXIT_FAILURE, [], [])
                | Inl NullArgument \<Rightarrow> (Crash, [], [])
                | Inr (s, o') \<Rightarrow>
                    (case nonopts s of
                       [] \<Rightarrow> (Return o', [], [])
                     | [a] \<Rightarrow> (Return (o'\<lparr>o_input := Some a\<rparr>), [], [])
                     | _ \<Rightarrow>
                         (Exit EXIT_FAILURE, [],
                          ''multiple input files are not supported'' @ [CHR 0x0A])))))"

section \<open>main, from the closure to the walk over the declarations\<close>



section \<open>What the specification says of the closure\<close>






section \<open>Properties of the emitter\<close>

lemma token_lines_snoc: "token_lines (xs @ [x]) = token_lines xs @ x @ [CHR 0x0A]"
  by (simp add: token_lines_def)

lemma uint_dec_pos: "n \<noteq> 0 \<Longrightarrow> uint_dec n = n - 1"
  by (simp add: uint_dec_def)

lemma dump_tokens_append:
  "dump_tokens k toks sz (xs @ ys) strm =
     (case dump_tokens k toks sz xs strm of
        None \<Rightarrow> None
      | Some strm' \<Rightarrow> dump_tokens k toks sz ys strm')"
  by (induction xs arbitrary: strm) (auto split: option.splits)

lemma dump_tokens_literal:
  "n \<le> length toks \<Longrightarrow>
   \<forall>i<n. \<not> (i = uint_dec sz \<and> k = CXCursor_TypedefDecl \<and> toks ! i = ''__attribute__'') \<Longrightarrow>
   dump_tokens k toks sz [0..<n] strm = Some (strm @ token_lines (take n toks))"
proof (induction n)
  case 0
  then show ?case by (simp add: token_lines_def)
next
  case (Suc n)
  then have "dump_tokens k toks sz [0..<n] strm = Some (strm @ token_lines (take n toks))"
    by simp
  moreover have "dump_tokens k toks sz [n] s = Some (s @ toks ! n @ [CHR 0x0A])" for s
    using Suc.prems by (auto simp: token_spelling_def)
  moreover have "take (Suc n) toks = take n toks @ [toks ! n]"
    using Suc.prems(1) by (simp add: take_Suc_conv_app_nth)
  ultimately show ?case by (simp add: dump_tokens_append token_lines_snoc)
qed

lemma dump_tokens_all:
  "\<not> (k = CXCursor_TypedefDecl \<and> toks \<noteq> [] \<and> last toks = ''__attribute__'') \<Longrightarrow>
   dump_tokens k toks (length toks) [0..<length toks] strm = Some (strm @ token_lines toks)"
  using dump_tokens_literal [of "length toks" toks "length toks" k strm]
  by (cases "toks = []") (auto simp: last_conv_nth uint_dec_pos)

lemma dump_tokens_attribute:
  assumes "toks \<noteq> []" and "last toks = ''__attribute__''"
  shows "dump_tokens CXCursor_TypedefDecl toks (length toks) [0..<length toks] strm
         = Some (strm @ token_lines (butlast toks) @ ''; '')"
proof -
  obtain n where n: "length toks = Suc n"
    using assms(1) by (cases toks) auto
  have "dump_tokens CXCursor_TypedefDecl toks (length toks) [0..<n] strm
        = Some (strm @ token_lines (take n toks))"
    using n by (intro dump_tokens_literal) (auto simp: uint_dec_def)
  moreover have "take n toks = butlast toks"
    using n by (simp add: butlast_conv_take)
  moreover have "toks ! n = ''__attribute__''"
    using assms n by (simp add: last_conv_nth)
  ultimately show ?thesis
    using n by (simp add: dump_tokens_append token_spelling_def uint_dec_def)
qed

lemma dump_tokens_butlast:
  assumes "toks \<noteq> []" and "k \<noteq> CXCursor_TypedefDecl"
  shows "dump_tokens k toks (length toks - 1) [0..<length toks - 1] strm
         = Some (strm @ token_lines (butlast toks))"
  using dump_tokens_literal [of "length toks - 1" toks "length toks - 1" k strm] assms
  by (simp add: butlast_conv_take)

lemma emit_nonempty:
  assumes "extent_tokens c \<noteq> []"
  shows "emit strm c =
     (let toks = extent_tokens c; k = kind c in
      if k = CXCursor_FunctionDecl then
        (if is_definition c \<and> last toks \<noteq> ''}''
         then dump_tokens k toks (length toks - 1) [0..<length toks - 1] strm
         else dump_tokens k toks (length toks) [0..<length toks] strm)
      else if k = CXCursor_StructDecl \<or> k = CXCursor_UnionDecl \<or> k = CXCursor_EnumDecl then
        (if last toks \<noteq> '';'' \<and> last toks \<noteq> ''}'' then Some strm
         else dump_tokens k toks (length toks) [0..<length toks] strm)
      else dump_tokens k toks (length toks) [0..<length toks] strm)"
proof -
  have "token_spelling (extent_tokens c) (uint_dec (length (extent_tokens c)))
          = Some (last (extent_tokens c))"
    using assms by (simp add: token_spelling_def uint_dec_pos last_conv_nth)
  moreover have "uint_dec (length (extent_tokens c)) = length (extent_tokens c) - 1"
    using assms by (simp add: uint_dec_pos)
  ultimately show ?thesis
    using assms unfolding emit_def Let_def by simp
qed

lemma emit_equation:
  "emit strm c =
     Some (if kind c = CXCursor_TypedefDecl \<and> extent_tokens c \<noteq> []
              \<and> last (extent_tokens c) = ''__attribute__''
           then strm @ token_lines (butlast (extent_tokens c)) @ ''; ''
           else strm @ token_lines (emitted_range c))"
proof (cases "extent_tokens c = []")
  case True
  then show ?thesis by (simp add: emit_def emitted_range_def token_lines_def)
next
  case False
  show ?thesis
  proof (cases "kind c = CXCursor_TypedefDecl \<and> last (extent_tokens c) = ''__attribute__''")
    case True
    with False show ?thesis
      by (simp add: emit_nonempty dump_tokens_attribute)
  next
    case nattr: False
    show ?thesis
    proof (cases "kind c = CXCursor_FunctionDecl \<and> is_definition c
                  \<and> last (extent_tokens c) \<noteq> ''}''")
      case True
      with False show ?thesis
        by (simp add: emit_nonempty emitted_range_def dump_tokens_butlast del: One_nat_def)
    next
      case False
      with \<open>extent_tokens c \<noteq> []\<close> nattr show ?thesis
        by (auto simp: emit_nonempty emitted_range_def Let_def dump_tokens_all token_lines_def)
    qed
  qed
qed

text \<open>
  C5. A function definition that is emitted, with a last token: when the last token of
  its extent is not the closing brace, the tokens printed are the extent without that
  last token, and when the last token is the closing brace, they are the whole extent.
\<close>

theorem emit_function_definition:
  assumes "kind c = CXCursor_FunctionDecl" and "is_definition c"
    and "extent_tokens c \<noteq> []"
  shows "emit strm c = Some (strm @ token_lines
           (if last (extent_tokens c) \<noteq> ''}'' then butlast (extent_tokens c)
            else extent_tokens c))"
proof (cases "last (extent_tokens c) = ''}''")
  case True
  then show ?thesis
    using assms by (simp add: emit_nonempty dump_tokens_all)
next
  case False
  then show ?thesis
    using assms by (simp add: emit_nonempty dump_tokens_butlast del: One_nat_def)
qed

theorem emit_function_definition_witness:
  "emit ''x'' \<lparr>kind = CXCursor_FunctionDecl, spelling = ''f'', is_definition = True,
       extent_tokens = [''void'', ''f'', ''('', '')'', ''{'', ''}'', ''int'']\<rparr>
     = Some (''x'' @ token_lines [''void'', ''f'', ''('', '')'', ''{'', ''}''])
   \<and> emit ''x'' \<lparr>kind = CXCursor_FunctionDecl, spelling = ''f'', is_definition = True,
       extent_tokens = [''void'', ''f'', ''('', '')'', ''{'', ''}'']\<rparr>
     = Some (''x'' @ token_lines [''void'', ''f'', ''('', '')'', ''{'', ''}''])"
  using emit_function_definition [of "\<lparr>kind = CXCursor_FunctionDecl, spelling = ''f'', is_definition = True,
       extent_tokens = [''void'', ''f'', ''('', '')'', ''{'', ''}'', ''int'']\<rparr>" "''x''"]
    emit_function_definition [of "\<lparr>kind = CXCursor_FunctionDecl, spelling = ''f'', is_definition = True,
       extent_tokens = [''void'', ''f'', ''('', '')'', ''{'', ''}'']\<rparr>" "''x''"]
  by simp

text \<open>
  C6. A struct, union or enum declaration that is emitted: when the last token of its
  extent is neither the semicolon nor the closing brace, nothing is written; otherwise
  all its tokens are written, one per line.
\<close>

theorem emit_tag_declaration:
  assumes "kind c = CXCursor_StructDecl \<or> kind c = CXCursor_UnionDecl
           \<or> kind c = CXCursor_EnumDecl"
  shows "emit strm c =
     Some (if extent_tokens c \<noteq> [] \<and> last (extent_tokens c) \<noteq> '';''
              \<and> last (extent_tokens c) \<noteq> ''}''
           then strm else strm @ token_lines (extent_tokens c))"
proof (cases "extent_tokens c = []")
  case True
  then show ?thesis by (simp add: emit_def token_lines_def)
next
  case False
  then show ?thesis
    using assms by (auto simp: emit_nonempty Let_def dump_tokens_all)
qed

theorem emit_tag_declaration_witness:
  "emit ''x'' \<lparr>kind = CXCursor_StructDecl, spelling = ''foo'', is_definition = True,
       extent_tokens = [''struct'', ''foo'', ''{'', ''}'', ''foo_t'']\<rparr> = Some ''x''
   \<and> emit ''x'' \<lparr>kind = CXCursor_EnumDecl, spelling = ''e'', is_definition = True,
       extent_tokens = [''enum'', ''e'', ''{'', ''A'', ''}'']\<rparr>
     = Some (''x'' @ token_lines [''enum'', ''e'', ''{'', ''A'', ''}''])"
  using emit_tag_declaration [of "\<lparr>kind = CXCursor_StructDecl, spelling = ''foo'', is_definition = True,
       extent_tokens = [''struct'', ''foo'', ''{'', ''}'', ''foo_t'']\<rparr>" "''x''"]
    emit_tag_declaration [of "\<lparr>kind = CXCursor_EnumDecl, spelling = ''e'', is_definition = True,
       extent_tokens = [''enum'', ''e'', ''{'', ''A'', ''}'']\<rparr>" "''x''"]
  by simp

text \<open>
  C10. A declaration that is emitted and whose extent has no token, of whatever kind:
  \<^verbatim>\<open>emit\<close> returns with the stream as it was, before the last token is looked at and
  before any correction that depends on the kind. The last token is not read: the read,
  at the index \<open>tokens_sz - 1\<close> wrapped around, would be out of bounds, and the call
  would not return a stream.
\<close>

theorem emit_no_tokens:
  "emit strm \<lparr>kind = k, spelling = name, is_definition = d, extent_tokens = []\<rparr> = Some strm
   \<and> token_spelling
        (extent_tokens \<lparr>kind = k, spelling = name, is_definition = d, extent_tokens = []\<rparr>)
        (uint_dec (length
          (extent_tokens \<lparr>kind = k, spelling = name, is_definition = d,
             extent_tokens = []\<rparr>))) = None"
  by (simp add: emit_def token_spelling_def)

text \<open>
  C7, as the claim states it, fails on a function definition: its kind is not typedef and
  its last token is not the attribute keyword, yet the last token of the extent is not
  printed.
\<close>

theorem emit_other_kind_counterexample:
  "kind \<lparr>kind = CXCursor_FunctionDecl, spelling = ''f'', is_definition = True,
       extent_tokens = [''void'', ''f'', ''('', '')'', ''{'', ''}'', ''int'']\<rparr>
     \<noteq> CXCursor_TypedefDecl
   \<and> last (extent_tokens \<lparr>kind = CXCursor_FunctionDecl, spelling = ''f'', is_definition = True,
       extent_tokens = [''void'', ''f'', ''('', '')'', ''{'', ''}'', ''int'']\<rparr>)
     \<noteq> ''__attribute__''
   \<and> emit [] \<lparr>kind = CXCursor_FunctionDecl, spelling = ''f'', is_definition = True,
       extent_tokens = [''void'', ''f'', ''('', '')'', ''{'', ''}'', ''int'']\<rparr>
     \<noteq> Some (token_lines [''void'', ''f'', ''('', '')'', ''{'', ''}'', ''int''])
   \<and> emit [] \<lparr>kind = CXCursor_FunctionDecl, spelling = ''f'', is_definition = True,
       extent_tokens = [''void'', ''f'', ''('', '')'', ''{'', ''}'', ''int'']\<rparr>
     = Some (token_lines [''void'', ''f'', ''('', '')'', ''{'', ''}''])"
  by (simp add: emit_equation emitted_range_def token_lines_def)

text \<open>
  C7 (amended). A typedef declaration that is emitted and whose last token spells
  \<^verbatim>\<open>__attribute__\<close> has every earlier token printed on its own line and a semicolon
  and a space printed in place of the last token. In every other case the tokens of the
  emitted range, which is the extent after the corrections for function definitions and
  for struct, union and enum declarations, are printed literally, one per line.
\<close>

theorem emit_typedef_attribute:
  "emit strm c =
     Some (if kind c = CXCursor_TypedefDecl \<and> extent_tokens c \<noteq> []
              \<and> last (extent_tokens c) = ''__attribute__''
           then strm @ token_lines (butlast (extent_tokens c)) @ ''; ''
           else strm @ token_lines (emitted_range c))"
  by (rule emit_equation)

theorem emit_typedef_attribute_witness:
  "emit ''x'' \<lparr>kind = CXCursor_TypedefDecl, spelling = ''t'', is_definition = True,
       extent_tokens = [''typedef'', ''int'', ''t'', ''__attribute__'']\<rparr>
     = Some (''x'' @ token_lines [''typedef'', ''int'', ''t''] @ ''; '')
   \<and> emit ''x'' \<lparr>kind = CXCursor_VarDecl, spelling = ''v'', is_definition = True,
       extent_tokens = [''int'', ''v'', ''__attribute__'']\<rparr>
     = Some (''x'' @ token_lines [''int'', ''v'', ''__attribute__''])"
  using emit_typedef_attribute [of "''x''" "\<lparr>kind = CXCursor_TypedefDecl, spelling = ''t'', is_definition = True,
       extent_tokens = [''typedef'', ''int'', ''t'', ''__attribute__'']\<rparr>"]
    emit_typedef_attribute [of "''x''" "\<lparr>kind = CXCursor_VarDecl, spelling = ''v'', is_definition = True,
       extent_tokens = [''int'', ''v'', ''__attribute__'']\<rparr>"]
  by (simp add: emitted_range_def)

section \<open>Properties of the selector\<close>

text \<open>
  C2. The visitor of the top-level declarations never stops the walk and does to the
  output what the three checks of the selector decide, taken in order: a function whose
  spelling is not in the keep-set is skipped, else a declaration of any kind whose
  spelling is in the blacklist is skipped, else the declaration is emitted. In particular
  a declaration that is not a function is emitted whenever its spelling is not in the
  blacklist, whatever the keep-set.
\<close>

theorem visitor_selector:
  "visitor c st =
     (case selector (keep st) (blacklist st) c of
        Skip \<Rightarrow> Some (CXChildVisit_Continue, st)
      | Emit \<Rightarrow>
          map_option (\<lambda>out'. (CXChildVisit_Continue, st\<lparr>out := out'\<rparr>)) (emit (out st) c))
   \<and> (kind c \<noteq> CXCursor_FunctionDecl \<and> spelling c \<notin> set (blacklist st)
        \<longrightarrow> visitor c st
            = map_option (\<lambda>out'. (CXChildVisit_Continue, st\<lparr>out := out'\<rparr>))
                (emit (out st) c))"
  by (simp add: visitor_def selector_def is_blacklisted_def set_contains_def
           split: option.splits)

theorem visitor_selector_witness:
  "visitor \<lparr>kind = CXCursor_VarDecl, spelling = ''v'', is_definition = True,
        extent_tokens = [''int'', ''v'', '';'']\<rparr>
     \<lparr>keep = [''f''], blacklist = [''g''], out = ''x''\<rparr>
   = Some (CXChildVisit_Continue,
      \<lparr>keep = [''f''], blacklist = [''g''], out = ''x'' @ token_lines [''int'', ''v'', '';'']\<rparr>)
   \<and> visitor \<lparr>kind = CXCursor_FunctionDecl, spelling = ''h'', is_definition = True,
       extent_tokens = [''void'', ''h'', ''('', '')'', ''{'', ''}'']\<rparr>
     \<lparr>keep = [''f''], blacklist = [''g''], out = ''x''\<rparr>
   = Some (CXChildVisit_Continue, \<lparr>keep = [''f''], blacklist = [''g''], out = ''x''\<rparr>)"
  using visitor_selector [of "\<lparr>kind = CXCursor_VarDecl, spelling = ''v'', is_definition = True,
        extent_tokens = [''int'', ''v'', '';'']\<rparr>"
        "\<lparr>keep = [''f''], blacklist = [''g''], out = ''x''\<rparr>"]
     visitor_selector [of "\<lparr>kind = CXCursor_FunctionDecl, spelling = ''h'', is_definition = True,
       extent_tokens = [''void'', ''h'', ''('', '')'', ''{'', ''}'']\<rparr>"
        "\<lparr>keep = [''f''], blacklist = [''g''], out = ''x''\<rparr>"]
  by (simp add: selector_def emit_equation emitted_range_def)

text \<open>
  C8. A declaration whose spelling is both in the closed keep-set and in the blacklist is
  not emitted: the visitor leaves the output as it was.
\<close>

theorem blacklist_precedence:
  assumes "spelling c \<in> set (keep st)" and "spelling c \<in> set (blacklist st)"
  shows "visitor c st = Some (CXChildVisit_Continue, st)"
  using assms by (simp add: visitor_def is_blacklisted_def set_contains_def)

theorem blacklist_precedence_witness:
  "visitor \<lparr>kind = CXCursor_FunctionDecl, spelling = ''g'', is_definition = True,
       extent_tokens = [''void'', ''g'', ''('', '')'', ''{'', ''}'']\<rparr>
     \<lparr>keep = [''f'', ''g''], blacklist = [''g''], out = ''x''\<rparr>
   = Some (CXChildVisit_Continue,
           \<lparr>keep = [''f'', ''g''], blacklist = [''g''], out = ''x''\<rparr>)"
  using blacklist_precedence [of "\<lparr>kind = CXCursor_FunctionDecl, spelling = ''g'', is_definition = True,
       extent_tokens = [''void'', ''g'', ''('', '')'', ''{'', ''}'']\<rparr>"
        "\<lparr>keep = [''f'', ''g''], blacklist = [''g''], out = ''x''\<rparr>"]
  by simp

section \<open>Properties of the closure\<close>

lemma set_insert_set [simp]: "set (set_insert s x) = insert x (set s)"
  by (auto simp: set_insert_def set_contains_def)

lemma set_union_set [simp]: "set (set_union a b) = set a \<union> set b"
proof -
  have "set (fold (\<lambda>name acc. set_insert acc name) b a) = set a \<union> set b" for a
    by (induction b arbitrary: a) auto
  then show ?thesis by (simp add: set_union_def)
qed


































section \<open>Properties of the command line\<close>

lemma parse_loop_short_b:
  "parse_loop \<lparr>nextchar = [], pending = ''-b'' # rest, nonopts = skipped\<rparr> o' = Inl Usage"
  by (subst parse_loop.simps)
     (simp add: getopt_long_def short_option_def nonoption_def)

text \<open>
  C4. The short option \<^verbatim>\<open>-b\<close> does not add a symbol to the blacklist: whatever
  follows it, \<^verbatim>\<open>parse_args\<close> prints the usage and exits with a failure, because the
  option string \<^verbatim>\<open>"k:o:?"\<close> has no \<^verbatim>\<open>b\<close>. The long option \<^verbatim>\<open>--blacklist\<close>
  adds its argument to the blacklist, and the short option \<^verbatim>\<open>-k\<close> does for the
  keep-set what \<^verbatim>\<open>-b\<close> does not do for the blacklist.
\<close>

theorem parse_args_short_blacklist:
  "parse_args 3 (argv0 # ''-b'' # rest) = (Exit EXIT_FAILURE, usage argv0, [])
   \<and> parse_args 3 [''pruner'', ''--blacklist'', ''g'', ''in.c'']
       = (Return \<lparr>o_input = Some ''in.c'', o_output = Some ''/dev/stdout'',
                  o_keep = [], o_blacklist = [''g'']\<rparr>, [], [])
   \<and> parse_args 3 [''pruner'', ''-k'', ''g'', ''in.c'']
       = (Return \<lparr>o_input = Some ''in.c'', o_output = Some ''/dev/stdout'',
                  o_keep = [''g''], o_blacklist = []\<rparr>, [], [])"
proof -
  have "parse_args 3 (argv0 # ''-b'' # rest) = (Exit EXIT_FAILURE, usage argv0, [])"
    by (simp add: parse_args_def set_new_def parse_loop_short_b)
  moreover have "parse_args 3 [''pruner'', ''--blacklist'', ''g'', ''in.c'']
       = (Return \<lparr>o_input = Some ''in.c'', o_output = Some ''/dev/stdout'',
                  o_keep = [], o_blacklist = [''g'']\<rparr>, [], [])"
    by code_simp
  moreover have "parse_args 3 [''pruner'', ''-k'', ''g'', ''in.c'']
       = (Return \<lparr>o_input = Some ''in.c'', o_output = Some ''/dev/stdout'',
                  o_keep = [''g''], o_blacklist = []\<rparr>, [], [])"
    by code_simp
  ultimately show ?thesis by simp
qed

end
